theory Spec2Isabelle
  imports Main
begin

section \<open>Data model\<close>

text \<open>
  A movie object as the store, the OMDB client and the suggestion service read it.
  A JavaScript property may be absent: \<open>None\<close> stands for \<open>undefined\<close>. Only the
  properties the modelled functions touch are kept. Objects are modelled as values:
  the properties proved below depend on identifiers and positions only, never on two
  references sharing one object.
\<close>

record movie =
  imdbID :: "string option"
  Title :: "string option"
  Year :: "string option"
  Genre :: "string option"
  userRating :: "int option"
  reason :: "string option"

text \<open>The global \<open>mediaData\<close> object of \<open>models/mediaData.js\<close>.\<close>

record media_data =
  toWatch :: "movie list"
  watched :: "movie list"
  selectedMovie :: "movie option"
  searchResults :: "movie list"
  suggestions :: "movie list"

text \<open>
  The application state: the in-memory \<open>mediaData\<close> and the item \<open>moviePickerData\<close> of
  the browser's local storage (\<open>None\<close> while nothing was written). The item holds the
  serialised object; the model keeps the object itself.
\<close>

record app_state =
  mediaData :: media_data
  localStorage :: "media_data option"

datatype list_name = ToWatch | Watched

datatype js_error = Error string | TypeError string

section \<open>The store: \<open>models/mediaData.js\<close>\<close>

definition saveToLocalStorage :: "app_state \<Rightarrow> app_state" where
  "saveToLocalStorage s = s\<lparr>localStorage := Some (mediaData s)\<rparr>"

definition getMovies :: "list_name \<Rightarrow> app_state \<Rightarrow> movie list" where
  "getMovies list s =
     (case list of ToWatch \<Rightarrow> toWatch (mediaData s) | Watched \<Rightarrow> watched (mediaData s))"

definition saveSuggestions :: "movie list \<Rightarrow> app_state \<Rightarrow> app_state" where
  "saveSuggestions suggs s =
     saveToLocalStorage (s\<lparr>mediaData := (mediaData s)\<lparr>suggestions := suggs\<rparr>\<rparr>)"

definition getCurrentSuggestions :: "app_state \<Rightarrow> movie list" where
  "getCurrentSuggestions s = suggestions (mediaData s)"

text \<open>\<open>Array.prototype.findIndex\<close>: the first position that satisfies the test, \<open>None\<close> for -1.\<close>

fun findIndex :: "('a \<Rightarrow> bool) \<Rightarrow> 'a list \<Rightarrow> nat option" where
  "findIndex p [] = None"
| "findIndex p (x # xs) =
     (if p x then Some 0 else (case findIndex p xs of None \<Rightarrow> None | Some i \<Rightarrow> Some (Suc i)))"

text \<open>\<open>xs.splice(i, 1)\<close>: the element at position \<open>i\<close> is removed.\<close>

definition splice1 :: "nat \<Rightarrow> 'a list \<Rightarrow> 'a list" where
  "splice1 i xs = take i xs @ drop (Suc i) xs"

text \<open>
  The tail of \<open>markAsWatched\<close> and \<open>markAsUnwatched\<close>: when the selected movie has the
  identifier of the moved one, it becomes the moved record. The calls into the user
  interface (\<open>triggerUIUpdate\<close>, \<open>showMovieDetails\<close>) do not touch the state and are left
  out.
\<close>

definition reselect :: "string option \<Rightarrow> movie \<Rightarrow> app_state \<Rightarrow> app_state" where
  "reselect imdbID' movie s =
     (case selectedMovie (mediaData s) of
        None \<Rightarrow> s
      | Some selected \<Rightarrow>
          if imdbID selected = imdbID'
          then s\<lparr>mediaData := (mediaData s)\<lparr>selectedMovie := Some movie\<rparr>\<rparr>
          else s)"

text \<open>
  \<open>markAsWatched(imdbID, rating = null)\<close>: the first entry of \<open>toWatch\<close> with the identifier
  is taken out, given the rating when one is passed, and put at the head of \<open>watched\<close>.
\<close>

definition markAsWatched :: "string option \<Rightarrow> int option \<Rightarrow> app_state \<Rightarrow> app_state" where
  "markAsWatched imdbID' rating' s =
     (case findIndex (\<lambda>m. imdbID m = imdbID') (toWatch (mediaData s)) of
        None \<Rightarrow> s
      | Some movieIndex \<Rightarrow>
          let found = toWatch (mediaData s) ! movieIndex;
              movie = (case rating' of None \<Rightarrow> found | Some r \<Rightarrow> found\<lparr>userRating := Some r\<rparr>);
              md = (mediaData s)\<lparr>toWatch := splice1 movieIndex (toWatch (mediaData s)),
                                 watched := movie # watched (mediaData s)\<rparr>
          in reselect imdbID' movie (saveToLocalStorage (s\<lparr>mediaData := md\<rparr>)))"

text \<open>
  \<open>markAsUnwatched(imdbID)\<close>: the first entry of \<open>watched\<close> with the identifier is copied,
  the copy loses its rating, the entry is taken out and the copy is put at the head of
  \<open>toWatch\<close>.
\<close>

definition markAsUnwatched :: "string option \<Rightarrow> app_state \<Rightarrow> app_state" where
  "markAsUnwatched imdbID' s =
     (case findIndex (\<lambda>m. imdbID m = imdbID') (watched (mediaData s)) of
        None \<Rightarrow> s
      | Some movieIndex \<Rightarrow>
          let movie = (watched (mediaData s) ! movieIndex)\<lparr>userRating := None\<rparr>;
              md = (mediaData s)\<lparr>watched := splice1 movieIndex (watched (mediaData s)),
                                 toWatch := movie # toWatch (mediaData s)\<rparr>
          in reselect imdbID' movie (saveToLocalStorage (s\<lparr>mediaData := md\<rparr>)))"

text \<open>A sequence of the two operations, run from left to right.\<close>

datatype list_op = MarkAsWatched "string option" "int option" | MarkAsUnwatched "string option"

fun apply_op :: "list_op \<Rightarrow> app_state \<Rightarrow> app_state" where
  "apply_op (MarkAsWatched i r) s = markAsWatched i r s"
| "apply_op (MarkAsUnwatched i) s = markAsUnwatched i s"

fun run_ops :: "list_op list \<Rightarrow> app_state \<Rightarrow> app_state" where
  "run_ops [] s = s"
| "run_ops (operation # ops) s = run_ops ops (apply_op operation s)"

section \<open>The suggestion service: \<open>services/suggestionService.js\<close>\<close>

text \<open>
  What the Suggestion Client hands back. \<open>getSuggestions\<close> returns whatever
  \<open>parseResponseJson\<close> produced: an array, or a value that is not an array. An element of
  the array is an object with the properties \<open>title\<close>, \<open>year\<close> and \<open>reason\<close> (each possibly
  absent), or \<open>null\<close>, on which reading a property throws.
\<close>

datatype suggestion =
  NullSuggestion
  | Suggestion (sg_title: "string option") (sg_year: "string option") (sg_reason: "string option")

datatype suggestion_data = SArray "suggestion list" | SNotArray suggestion

datatype sample_rating = Rating int | NotRated

record movie_sample =
  title :: "string option"
  year :: "string option"
  genre :: string
  rating :: sample_rating

text \<open>
  The observable steps of a run, in the order in which the code performs them: the
  callbacks it invokes, the calls it makes to the two clients, and its write to the
  store.
\<close>

datatype event =
  LoadStart
  | LoadComplete "movie list"
  | OnError js_error
  | ReplaceStart "string option"
  | ReplaceComplete "string option" movie
  | CallGetSuggestions "movie_sample list" "string list"
  | CallGetReplacementSuggestion "movie_sample list" "string list"
  | CallSearchMovieByTitle "string option" "string option"
  | SaveSuggestions "movie list"

record outcome =
  store :: app_state
  trace :: "event list"
  returned :: "movie option"

type_synonym suggestion_client = "movie_sample list \<Rightarrow> string list \<Rightarrow> js_error + suggestion_data"
type_synonym replacement_client = "movie_sample list \<Rightarrow> string list \<Rightarrow> js_error + suggestion"
type_synonym metadata_client = "string option \<Rightarrow> string option \<Rightarrow> js_error + movie option"

text \<open>
  \<open>String.prototype.toLowerCase\<close> on the ASCII letters; other bytes are kept. The codes
  65 to 90 have bit 5 clear, so adding 32 is setting that bit.
\<close>

definition lower_char :: "char \<Rightarrow> char" where
  "lower_char c =
     (case c of
        Char b0 b1 b2 b3 b4 b5 b6 b7 \<Rightarrow>
          if 65 \<le> (of_char c :: nat) \<and> (of_char c :: nat) \<le> 90
          then Char b0 b1 b2 b3 b4 True b6 b7 else c)"

definition toLowerCase :: "string \<Rightarrow> string" where
  "toLowerCase = map lower_char"

text \<open>
  \<open>allMovies.map(movie => movie.Title.toLowerCase())\<close>: a movie without a title makes
  the method call throw a \<open>TypeError\<close>.
\<close>

fun lowerTitles :: "movie list \<Rightarrow> string list option" where
  "lowerTitles [] = Some []"
| "lowerTitles (m # ms) =
     (case Title m of
        None \<Rightarrow> None
      | Some t \<Rightarrow> (case lowerTitles ms of None \<Rightarrow> None | Some ts \<Rightarrow> Some (toLowerCase t # ts)))"

text \<open>\<open>x || d\<close> on a string property: absent and empty are falsy.\<close>

definition str_or :: "string option \<Rightarrow> string \<Rightarrow> string" where
  "str_or v d = (case v of None \<Rightarrow> d | Some x \<Rightarrow> if x = [] then d else x)"

definition rating_or :: "int option \<Rightarrow> sample_rating" where
  "rating_or v = (case v of None \<Rightarrow> NotRated | Some r \<Rightarrow> if r = 0 then NotRated else Rating r)"

definition toSample :: "movie \<Rightarrow> movie_sample" where
  "toSample m =
     \<lparr>title = Title m, year = Year m, genre = str_or (Genre m) ''Unknown'',
      rating = rating_or (userRating m)\<rparr>"

definition defaultReason :: string where
  "defaultReason = ''Recommended based on your taste''"

text \<open>
  The callback mapped over the candidates (lines 59 to 79): the metadata lookup, the
  check against the identifiers of the user's lists, and the \<open>reason\<close> attached to the
  record. Every exception inside is caught and gives \<open>null\<close>.
\<close>

definition suggestionWithDetails ::
  "metadata_client \<Rightarrow> string option list \<Rightarrow> suggestion \<Rightarrow> movie option" where
  "suggestionWithDetails searchMovieByTitle existingMovieIds sg =
     (case sg of
        NullSuggestion \<Rightarrow> None
      | Suggestion t y r \<Rightarrow>
          (case searchMovieByTitle t y of
             Inl e \<Rightarrow> None
           | Inr None \<Rightarrow> None
           | Inr (Some movieDetails) \<Rightarrow>
               if imdbID movieDetails \<in> set existingMovieIds then None
               else Some (movieDetails\<lparr>reason := Some (str_or r defaultReason)\<rparr>)))"

text \<open>The lookups the mapped callback issues, one for each candidate that is an object.\<close>

fun searchCalls :: "suggestion list \<Rightarrow> event list" where
  "searchCalls [] = []"
| "searchCalls (NullSuggestion # cs) = searchCalls cs"
| "searchCalls (Suggestion t y r # cs) = CallSearchMovieByTitle t y # searchCalls cs"

text \<open>\<open>suggestionsWithDetails.filter(s => s !== null)\<close>.\<close>

fun notNull :: "'a option list \<Rightarrow> 'a list" where
  "notNull [] = []"
| "notNull (None # xs) = notNull xs"
| "notNull (Some x # xs) = x # notNull xs"

definition emit :: "bool \<Rightarrow> event \<Rightarrow> event list" where
  "emit callback e = (if callback then [e] else [])"

text \<open>
  \<open>getMovieSuggestions\<close>. The three booleans say whether the caller passed a function
  for the callback of that name (\<open>typeof cb === 'function'\<close>); callbacks are taken not to
  throw. The two clients are parameters, so every result below holds for whatever they
  answer. \<open>s\<close> is the state when the function is called, \<open>s'\<close> the state when it resumes
  after its awaits (\<open>s' = s\<close> when no other handler ran in between): the lists are read
  from \<open>s\<close>, and \<open>saveSuggestions\<close> writes to \<open>s'\<close>.
\<close>

definition getMovieSuggestions ::
  "bool \<Rightarrow> bool \<Rightarrow> bool \<Rightarrow> suggestion_client \<Rightarrow> metadata_client
     \<Rightarrow> app_state \<Rightarrow> app_state \<Rightarrow> outcome" where
  "getMovieSuggestions onLoadStart onLoadComplete onError getSuggestions searchMovieByTitle s s' =
     (let started = emit onLoadStart LoadStart;
          toWatchMovies = getMovies ToWatch s;
          watchedMovies = getMovies Watched s;
          hasMovies = (length toWatchMovies > 0 \<or> length watchedMovies > 0)
      in if \<not> hasMovies then
           \<lparr>store = s, trace = started @ emit onLoadComplete (LoadComplete []), returned = None\<rparr>
         else
           let allMovies = toWatchMovies @ watchedMovies;
               existingMovieIds = map imdbID allMovies
           in case lowerTitles allMovies of
                None \<Rightarrow>
                  (let error = TypeError ''movie.Title is undefined''
                   in \<lparr>store = s, trace = started @ emit onError (OnError error), returned = None\<rparr>)
              | Some existingMovieTitles \<Rightarrow>
                  let toWatchSample = take 5 toWatchMovies;
                      watchedSample = take 5 watchedMovies;
                      movieSample = map toSample (toWatchSample @ watchedSample);
                      asked = started @ [CallGetSuggestions movieSample existingMovieTitles]
                  in case getSuggestions movieSample existingMovieTitles of
                       Inl error \<Rightarrow>
                         \<lparr>store = s', trace = asked @ emit onError (OnError error), returned = None\<rparr>
                     | Inr (SNotArray v) \<Rightarrow>
                         (let error = TypeError ''suggestionData.slice is not a function''
                          in \<lparr>store = s', trace = asked @ emit onError (OnError error),
                               returned = None\<rparr>)
                     | Inr (SArray suggestionData) \<Rightarrow>
                         let candidates = take 5 suggestionData;
                             suggestionsWithDetails =
                               map (suggestionWithDetails searchMovieByTitle existingMovieIds)
                                 candidates;
                             validSuggestions = notNull suggestionsWithDetails
                         in \<lparr>store = saveSuggestions validSuggestions s',
                              trace = asked @ searchCalls candidates
                                @ [SaveSuggestions validSuggestions]
                                @ emit onLoadComplete (LoadComplete validSuggestions),
                              returned = None\<rparr>)"

text \<open>
  Every failure of \<open>replaceSuggestion\<close> ends in its \<open>catch\<close> block (or, for a duplicate, in
  the same steps written out): the error callback is invoked, nothing is written, and
  \<open>null\<close> is returned.
\<close>

definition failed :: "bool \<Rightarrow> app_state \<Rightarrow> event list \<Rightarrow> js_error \<Rightarrow> outcome" where
  "failed onError s steps error =
     \<lparr>store = s, trace = steps @ emit onError (OnError error), returned = None\<rparr>"

definition notFoundError :: js_error where
  "notFoundError = Error ''Could not get movie details for suggestion''"

definition duplicateError :: js_error where
  "duplicateError = Error ''Suggested movie already in lists''"

text \<open>
  \<open>replaceSuggestion\<close>. As above, \<open>s\<close> is the state at the call and \<open>s'\<close> the state when
  the function resumes after its awaits: the exclusion lists are built from \<open>s\<close>, while
  the position of the target is looked up in, and the replacement written to, the
  suggestions of \<open>s'\<close> (the second \<open>getCurrentSuggestions()\<close>).
\<close>

definition replaceSuggestion ::
  "string option \<Rightarrow> bool \<Rightarrow> bool \<Rightarrow> bool \<Rightarrow> replacement_client \<Rightarrow> metadata_client
     \<Rightarrow> app_state \<Rightarrow> app_state \<Rightarrow> outcome" where
  "replaceSuggestion imdbID' onReplaceStart onReplaceComplete onError getReplacementSuggestion
       searchMovieByTitle s s' =
     (let started = emit onReplaceStart (ReplaceStart imdbID');
          toWatchMovies = getMovies ToWatch s;
          watchedMovies = getMovies Watched s;
          suggs = getCurrentSuggestions s;
          allMovies = toWatchMovies @ watchedMovies;
          existingMovieIds = map imdbID allMovies @ map imdbID suggs
      in case lowerTitles (allMovies @ suggs) of
           None \<Rightarrow> failed onError s started (TypeError ''movie.Title is undefined'')
         | Some existingMovieTitles \<Rightarrow>
             let movieSample = map toSample (take 10 allMovies);
                 asked = started @ [CallGetReplacementSuggestion movieSample existingMovieTitles]
             in case getReplacementSuggestion movieSample existingMovieTitles of
                  Inl error \<Rightarrow> failed onError s' asked error
                | Inr NullSuggestion \<Rightarrow>
                    failed onError s' asked (TypeError ''suggestionData is undefined'')
                | Inr (Suggestion t y r) \<Rightarrow>
                    let looked = asked @ [CallSearchMovieByTitle t y]
                    in case searchMovieByTitle t y of
                         Inl error \<Rightarrow> failed onError s' looked error
                       | Inr None \<Rightarrow> failed onError s' looked notFoundError
                       | Inr (Some movieDetails) \<Rightarrow>
                           if imdbID movieDetails \<in> set existingMovieIds
                           then failed onError s' looked duplicateError
                           else
                             let newSuggestion =
                                   movieDetails\<lparr>reason := Some (str_or r defaultReason)\<rparr>;
                                 currentSuggestions = getCurrentSuggestions s'
                             in case findIndex (\<lambda>sg. imdbID sg = imdbID') currentSuggestions of
                                  None \<Rightarrow> failed onError s' looked notFoundError
                                | Some index \<Rightarrow>
                                    let updatedSuggestions =
                                          currentSuggestions[index := newSuggestion]
                                    in \<lparr>store = saveSuggestions updatedSuggestions s',
                                         trace = looked @ [SaveSuggestions updatedSuggestions]
                                           @ emit onReplaceComplete
                                               (ReplaceComplete imdbID' newSuggestion),
                                         returned = Some newSuggestion\<rparr>)"

text \<open>The events that are calls to one of the two external clients.\<close>

fun is_client_call :: "event \<Rightarrow> bool" where
  "is_client_call (CallGetSuggestions a b) = True"
| "is_client_call (CallGetReplacementSuggestion a b) = True"
| "is_client_call (CallSearchMovieByTitle a b) = True"
| "is_client_call e = False"

fun is_error :: "event \<Rightarrow> bool" where
  "is_error (OnError e) = True"
| "is_error e = False"

fun is_save :: "event \<Rightarrow> bool" where
  "is_save (SaveSuggestions xs) = True"
| "is_save e = False"

section \<open>The Metadata Client: \<open>api/omdbApi.js\<close>\<close>

text \<open>
  The parsed body of an OMDB answer: the \<open>Response\<close> flag, the \<open>Error\<close> text, the \<open>Search\<close>
  array of the search form, and the movie properties of the object itself.
\<close>

record omdb_data =
  Response :: "string option"
  omdbError :: "string option"
  Search :: "movie list option"
  details :: movie

text \<open>
  What a \<open>fetch\<close> followed by \<open>response.json()\<close> can do: \<open>fetch\<close> rejects (the network
  failed), or it resolves with a status and a body. The body is \<open>None\<close> when it is not
  JSON, so that reading it throws. The code never looks at the status.
\<close>

datatype fetch_result = NetworkFailure | Responded nat "omdb_data option"

type_synonym network = "string \<Rightarrow> fetch_result"

definition API_KEY :: string where "API_KEY = ''3a90c5bb''"
definition API_URL :: string where "API_URL = ''https://www.omdbapi.com/''"

text \<open>A value in a template literal: \<open>undefined\<close> prints as such.\<close>

definition toString :: "string option \<Rightarrow> string" where
  "toString v = (case v of None \<Rightarrow> ''undefined'' | Some x \<Rightarrow> x)"

text \<open>
  \<open>encodeURIComponent\<close> on a string of bytes: letters, digits and \<open>- _ . ! ~ * ' ( )\<close> are
  kept, every other byte becomes \<open>%XX\<close>.
\<close>

definition unreserved :: "char \<Rightarrow> bool" where
  "unreserved c =
     (let n = (of_char c :: nat)
      in (65 \<le> n \<and> n \<le> 90) \<or> (97 \<le> n \<and> n \<le> 122) \<or> (48 \<le> n \<and> n \<le> 57)
         \<or> c \<in> set ''-_.!~*'()'')"

definition hexDigit :: "nat \<Rightarrow> char" where
  "hexDigit n = ''0123456789ABCDEF'' ! n"

definition encodeURIComponent :: "string \<Rightarrow> string" where
  "encodeURIComponent str =
     concat (map (\<lambda>c. if unreserved c then [c]
                       else [CHR ''%'', hexDigit ((of_char c :: nat) div 16),
                             hexDigit ((of_char c :: nat) mod 16)]) str)"

text \<open>\<open>await fetch(url)\<close> and \<open>await response.json()\<close>, with the exceptions they throw.\<close>

definition fetchJson :: "network \<Rightarrow> string \<Rightarrow> js_error + omdb_data" where
  "fetchJson fetch url =
     (case fetch url of
        NetworkFailure \<Rightarrow> Inl (TypeError ''Failed to fetch'')
      | Responded status None \<Rightarrow> Inl (Error ''SyntaxError: the body is not JSON'')
      | Responded status (Some data) \<Rightarrow> Inr data)"

text \<open>
  The \<open>try\<close> block of \<open>searchMovieByTitle(title, year = '')\<close>: the lookup by exact title,
  then the search whose first hit is looked up by identifier.
\<close>

definition searchMovieByTitle_try ::
  "network \<Rightarrow> string option \<Rightarrow> string option \<Rightarrow> js_error + movie option" where
  "searchMovieByTitle_try fetch title' year' =
     (let yr = (case year' of None \<Rightarrow> [] | Some v \<Rightarrow> v);
          searchUrl = API_URL @ ''?apikey='' @ API_KEY @ ''&t='' @ encodeURIComponent (toString title')
                      @ (if yr \<noteq> [] then ''&y='' @ yr else [])
      in case fetchJson fetch searchUrl of
           Inl e \<Rightarrow> Inl e
         | Inr data \<Rightarrow>
             if Response data = Some ''True'' then Inr (Some (details data))
             else
               (case fetchJson fetch
                       (API_URL @ ''?apikey='' @ API_KEY @ ''&s=''
                          @ encodeURIComponent (toString title')) of
                  Inl e \<Rightarrow> Inl e
                | Inr searchData \<Rightarrow>
                    if Response searchData = Some ''True''
                    then (case Search searchData of
                            None \<Rightarrow> Inr None
                          | Some [] \<Rightarrow> Inr None
                          | Some (firstResult # others) \<Rightarrow>
                              (case fetchJson fetch
                                      (API_URL @ ''?apikey='' @ API_KEY @ ''&i=''
                                         @ toString (imdbID firstResult)) of
                                 Inl e \<Rightarrow> Inl e
                               | Inr found \<Rightarrow> Inr (Some (details found))))
                    else Inr None))"

text \<open>\<open>searchMovieByTitle\<close>: the \<open>catch\<close> block logs the exception and returns \<open>null\<close>.\<close>

definition searchMovieByTitle :: "network \<Rightarrow> metadata_client" where
  "searchMovieByTitle fetch title' year' =
     (case searchMovieByTitle_try fetch title' year' of
        Inl error \<Rightarrow> Inr None
      | Inr result \<Rightarrow> Inr result)"



section \<open>The Suggestion Client's parser: \<open>parseResponseJson\<close> in \<open>api/mistralApi.js\<close>\<close>

subsection \<open>Regular expressions\<close>






















subsection \<open>\<open>JSON.parse\<close>\<close>



























subsection \<open>\<open>parseResponseJson\<close>\<close>






section \<open>Notions used in the statements\<close>


definition suggestionIds :: "app_state \<Rightarrow> string option list" where
  "suggestionIds s = map imdbID (getCurrentSuggestions s)"

text \<open>
  No identifier is in both user lists; no identifier occurs twice within one list.
\<close>

definition exclusive :: "app_state \<Rightarrow> bool" where
  "exclusive s =
     (set (map imdbID (getMovies ToWatch s)) \<inter> set (map imdbID (getMovies Watched s)) = {})"

definition noRepeats :: "app_state \<Rightarrow> bool" where
  "noRepeats s =
     (distinct (map imdbID (getMovies ToWatch s)) \<and> distinct (map imdbID (getMovies Watched s)))"




section \<open>Example inputs\<close>

definition mk_movie :: "string \<Rightarrow> string \<Rightarrow> string \<Rightarrow> movie" where
  "mk_movie i t y =
     \<lparr>imdbID = Some i, Title = Some t, Year = Some y, Genre = None, userRating = None,
      reason = None\<rparr>"

definition dune :: movie where "dune = mk_movie ''tt1160419'' ''Dune'' ''2021''"
definition alien :: movie where "alien = mk_movie ''tt0078748'' ''Alien'' ''1979''"
definition heat :: movie where "heat = mk_movie ''tt0113277'' ''Heat'' ''1995''"
definition solaris :: movie where "solaris = mk_movie ''tt0069293'' ''Solaris'' ''1972''"

definition mk_state :: "movie list \<Rightarrow> movie list \<Rightarrow> movie list \<Rightarrow> app_state" where
  "mk_state tw w sg =
     \<lparr>mediaData = \<lparr>toWatch = tw, watched = w, selectedMovie = None, searchResults = [],
        suggestions = sg\<rparr>, localStorage = None\<rparr>"

text \<open>A Suggestion Client that is down, and a Metadata Client that finds nothing.\<close>

definition client_down :: suggestion_client where
  "client_down sample titles = Inl (Error ''API responded with status 503'')"

definition metadata_none :: metadata_client where
  "metadata_none t y = Inr None"


definition catalogue :: metadata_client where
  "catalogue t y =
     (if t = Some ''Dune'' then Inr (Some dune)
      else if t = Some ''Alien'' then Inr (Some alien)
      else if t = Some ''Heat'' then Inr (Some heat)
      else if t = Some ''Solaris'' then Inr (Some solaris)
      else Inr None)"


definition stalker :: movie where "stalker = mk_movie ''tt0079944'' ''Stalker'' ''1979''"

text \<open>
  A replacement client that proposes Stalker, and a Metadata Client that resolves it.
\<close>

definition propose_stalker :: replacement_client where
  "propose_stalker sample titles =
     Inr (Suggestion (Some ''Stalker'') (Some ''1979'') (Some ''slow and strange''))"

definition find_stalker :: metadata_client where
  "find_stalker t y = (if t = Some ''Stalker'' then Inr (Some stalker) else Inr None)"




definition notFoundData :: omdb_data where
  "notFoundData =
     \<lparr>Response = Some ''False'', omdbError = Some ''Movie not found!'', Search = None,
      details = \<lparr>imdbID = None, Title = None, Year = None, Genre = None, userRating = None,
                 reason = None\<rparr>\<rparr>"


text \<open>A network that knows one film, by its exact title and year.\<close>

definition bladeRunner :: movie where
  "bladeRunner = mk_movie ''tt0083658'' ''Blade Runner'' ''1982''"

definition fetch_catalogue :: network where
  "fetch_catalogue url =
     (if url = ''https://www.omdbapi.com/?apikey=3a90c5bb&t=Blade%20Runner&y=1982''
      then Responded 200
             (Some \<lparr>Response = Some ''True'', omdbError = None, Search = None,
                    details = bladeRunner\<rparr>)
      else Responded 200 (Some notFoundData))"





section \<open>Results\<close>

lemma getMovieSuggestions_empty:
  assumes "getMovies ToWatch s = []" and "getMovies Watched s = []"
  shows "getMovieSuggestions ls lc oe gs sm s s' =
           \<lparr>store = s, trace = emit ls LoadStart @ emit lc (LoadComplete []), returned = None\<rparr>"
  using assms by (simp add: getMovieSuggestions_def)

text \<open>
  Claim C7. With both lists empty, \<open>getMovieSuggestions\<close> invokes the completion callback
  with the empty list and does nothing else: after the optional start callback the
  completion callback is its only step, no call goes to the Suggestion Client or to the
  Metadata Client, and the error callback is not invoked.
\<close>

theorem C7_no_input_outcome:
  assumes "getMovies ToWatch s = []" and "getMovies Watched s = []"
  shows "trace (getMovieSuggestions ls True oe gs sm s s') = emit ls LoadStart @ [LoadComplete []]
         \<and> filter is_client_call (trace (getMovieSuggestions ls True oe gs sm s s')) = []
         \<and> filter is_error (trace (getMovieSuggestions ls True oe gs sm s s')) = []"
  using assms by (simp add: getMovieSuggestions_empty emit_def)


theorem C7_no_input_outcome_witness:
  "getMovies ToWatch (mk_state [] [] [dune]) = []
   \<and> getMovies Watched (mk_state [] [] [dune]) = []
   \<and> trace (getMovieSuggestions True True True client_down metadata_none
        (mk_state [] [] [dune]) (mk_state [] [] [dune])) = [LoadStart, LoadComplete []]"
  using C7_no_input_outcome [of "mk_state [] [] [dune]" True True client_down metadata_none
      "mk_state [] [] [dune]"]
  by (simp add: getMovies_def mk_state_def emit_def)

text \<open>
  Claim C10. With both lists empty, \<open>getMovieSuggestions\<close> leaves the whole state as it
  was: the in-memory object and the local-storage item are those of the call, the stored
  suggestions are neither cleared nor overwritten, and \<open>saveSuggestions\<close> is not called.
\<close>

theorem C10_no_input_frame:
  assumes "getMovies ToWatch s = []" and "getMovies Watched s = []"
  shows "store (getMovieSuggestions ls lc oe gs sm s s') = s
         \<and> getCurrentSuggestions (store (getMovieSuggestions ls lc oe gs sm s s'))
             = getCurrentSuggestions s
         \<and> filter is_save (trace (getMovieSuggestions ls lc oe gs sm s s')) = []"
  using assms by (simp add: getMovieSuggestions_empty emit_def)

theorem C10_no_input_frame_witness:
  "getMovies ToWatch (mk_state [] [] [dune, alien]) = []
   \<and> getMovies Watched (mk_state [] [] [dune, alien]) = []
   \<and> getCurrentSuggestions (store (getMovieSuggestions True True True client_down metadata_none
        (mk_state [] [] [dune, alien]) (mk_state [] [] [dune, alien]))) = [dune, alien]"
  using C10_no_input_frame [of "mk_state [] [] [dune, alien]" True True True client_down
      metadata_none "mk_state [] [] [dune, alien]"]
  by (simp add: getMovies_def getCurrentSuggestions_def mk_state_def)












lemma getMovieSuggestions_client_error:
  assumes "getMovies ToWatch s \<noteq> [] \<or> getMovies Watched s \<noteq> []"
    and "lowerTitles (getMovies ToWatch s @ getMovies Watched s) = Some titles"
    and "gs (map toSample (take 5 (getMovies ToWatch s) @ take 5 (getMovies Watched s))) titles
           = Inl err"
  shows "getMovieSuggestions ls lc oe gs sm s s' =
           \<lparr>store = s',
            trace = emit ls LoadStart
              @ [CallGetSuggestions
                   (map toSample (take 5 (getMovies ToWatch s) @ take 5 (getMovies Watched s)))
                   titles]
              @ emit oe (OnError err),
            returned = None\<rparr>"
  using assms by (auto simp: getMovieSuggestions_def Let_def)

text \<open>
  Claim C3. When the call to the Suggestion Client inside \<open>getMovieSuggestions\<close> raises
  an exception \<open>err\<close>, the operation aborts: the state is the one the function found when
  it resumed (the stored suggestions and the local-storage item are untouched), nothing
  is saved, no lookup goes to the Metadata Client, the completion callback is not
  invoked, and the last step is the error callback, invoked with \<open>err\<close>.
\<close>

theorem C3_client_failure_aborts:
  assumes "getMovies ToWatch s \<noteq> [] \<or> getMovies Watched s \<noteq> []"
    and "lowerTitles (getMovies ToWatch s @ getMovies Watched s) = Some titles"
    and "gs (map toSample (take 5 (getMovies ToWatch s) @ take 5 (getMovies Watched s))) titles
           = Inl err"
  shows "store (getMovieSuggestions ls lc True gs sm s s') = s'
     \<and> getCurrentSuggestions (store (getMovieSuggestions ls lc True gs sm s s'))
         = getCurrentSuggestions s'
     \<and> filter is_save (trace (getMovieSuggestions ls lc True gs sm s s')) = []
     \<and> filter is_error (trace (getMovieSuggestions ls lc True gs sm s s')) = [OnError err]
     \<and> last (trace (getMovieSuggestions ls lc True gs sm s s')) = OnError err
     \<and> (\<forall>xs. LoadComplete xs \<notin> set (trace (getMovieSuggestions ls lc True gs sm s s')))
     \<and> (\<forall>t y. CallSearchMovieByTitle t y
            \<notin> set (trace (getMovieSuggestions ls lc True gs sm s s')))"
  using getMovieSuggestions_client_error [of s titles gs err ls lc True sm s'] assms
  by (simp add: emit_def)

theorem C3_client_failure_aborts_witness:
  "getMovies ToWatch (mk_state [alien] [heat] [dune]) = [alien]
   \<and> lowerTitles (getMovies ToWatch (mk_state [alien] [heat] [dune])
        @ getMovies Watched (mk_state [alien] [heat] [dune])) = Some [''alien'', ''heat'']
   \<and> client_down [toSample alien, toSample heat] [''alien'', ''heat'']
       = Inl (Error ''API responded with status 503'')
   \<and> getCurrentSuggestions (store (getMovieSuggestions True True True client_down catalogue
        (mk_state [alien] [heat] [dune]) (mk_state [alien] [heat] [dune]))) = [dune]
   \<and> last (trace (getMovieSuggestions True True True client_down catalogue
        (mk_state [alien] [heat] [dune]) (mk_state [alien] [heat] [dune])))
       = OnError (Error ''API responded with status 503'')"
proof -
  let ?s = "mk_state [alien] [heat] [dune]"
  have lists: "getMovies ToWatch ?s = [alien]" "getMovies Watched ?s = [heat]"
    by (simp_all add: getMovies_def mk_state_def)
  have some: "getMovies ToWatch ?s \<noteq> [] \<or> getMovies Watched ?s \<noteq> []"
    by (simp add: lists)
  have titles: "lowerTitles (getMovies ToWatch ?s @ getMovies Watched ?s)
                  = Some [''alien'', ''heat'']"
    unfolding lists by (simp add: alien_def heat_def mk_movie_def toLowerCase_def lower_char_def)
  have down: "client_down
      (map toSample (take 5 (getMovies ToWatch ?s) @ take 5 (getMovies Watched ?s)))
      [''alien'', ''heat''] = Inl (Error ''API responded with status 503'')"
    unfolding lists by (simp add: client_down_def)
  have cur: "getCurrentSuggestions ?s = [dune]"
    by (simp add: getCurrentSuggestions_def mk_state_def)
  from C3_client_failure_aborts [of ?s "[''alien'', ''heat'']" client_down
      "Error ''API responded with status 503''" True True catalogue ?s, OF some titles down]
  have "getCurrentSuggestions (store (getMovieSuggestions True True True client_down catalogue
          ?s ?s)) = getCurrentSuggestions ?s
        \<and> last (trace (getMovieSuggestions True True True client_down catalogue ?s ?s))
            = OnError (Error ''API responded with status 503'')"
    by blast
  with lists titles cur show ?thesis by (simp add: client_down_def)
qed

lemma findIndex_None: "findIndex p xs = None \<longleftrightarrow> (\<forall>x \<in> set xs. \<not> p x)"
  by (induction xs) (auto split: option.splits)



lemma replaceSuggestion_not_applied:
  assumes "lowerTitles (getMovies ToWatch s @ getMovies Watched s @ getCurrentSuggestions s)
             = Some titles"
    and "gr (map toSample (take 10 (getMovies ToWatch s @ getMovies Watched s))) titles
           = Inr (Suggestion t y r)"
    and "sm t y = Inr (Some m)"
    and "imdbID m \<notin> imdbID ` set (getMovies ToWatch s @ getMovies Watched s
                                     @ getCurrentSuggestions s)"
    and "findIndex (\<lambda>sg. imdbID sg = i) (getCurrentSuggestions s') = None"
  shows "replaceSuggestion i rs rc oe gr sm s s' =
           \<lparr>store = s',
            trace = emit rs (ReplaceStart i)
              @ [CallGetReplacementSuggestion
                   (map toSample (take 10 (getMovies ToWatch s @ getMovies Watched s))) titles,
                 CallSearchMovieByTitle t y]
              @ emit oe (OnError notFoundError),
            returned = None\<rparr>"
  using assms by (auto simp: replaceSuggestion_def failed_def Let_def)




lemma replaceSuggestion_gone:
  "replaceSuggestion (imdbID alien) True True True propose_stalker find_stalker
      (mk_state [alien] [heat] [dune, alien, solaris]) (mk_state [alien] [heat] [dune, solaris])
   = \<lparr>store = mk_state [alien] [heat] [dune, solaris],
      trace = [ReplaceStart (imdbID alien),
               CallGetReplacementSuggestion [toSample alien, toSample heat]
                 [''alien'', ''heat'', ''dune'', ''alien'', ''solaris''],
               CallSearchMovieByTitle (Some ''Stalker'') (Some ''1979''),
               OnError notFoundError],
      returned = None\<rparr>"
  by (simp add: replaceSuggestion_def failed_def getMovies_def getCurrentSuggestions_def
      mk_state_def emit_def propose_stalker_def find_stalker_def alien_def heat_def dune_def
      solaris_def stalker_def mk_movie_def toLowerCase_def lower_char_def Let_def)

theorem C5_counterexample:
  "OnError notFoundError \<in> set (trace
     (replaceSuggestion (imdbID alien) True True True propose_stalker find_stalker
        (mk_state [alien] [heat] [dune, alien, solaris])
        (mk_state [alien] [heat] [dune, solaris])))"
  by (simp add: replaceSuggestion_gone)

text \<open>
  Claim C5, as amended. When \<open>replaceSuggestion\<close> resolves a candidate whose identifier is
  in neither list nor in the suggestion set, but no entry of the current set carries the
  target identifier any more, the state is left as it is, nothing is saved, the new
  suggestion is dropped and \<open>null\<close> is returned; the completion callback is not invoked,
  and the error callback is invoked with the error
  \<open>Could not get movie details for suggestion\<close>.
\<close>

theorem C5_target_gone:
  assumes "lowerTitles (getMovies ToWatch s @ getMovies Watched s @ getCurrentSuggestions s)
             = Some titles"
    and "gr (map toSample (take 10 (getMovies ToWatch s @ getMovies Watched s))) titles
           = Inr (Suggestion t y r)"
    and "sm t y = Inr (Some m)"
    and "imdbID m \<notin> imdbID ` set (getMovies ToWatch s @ getMovies Watched s
                                     @ getCurrentSuggestions s)"
    and "i \<notin> set (suggestionIds s')"
  shows "store (replaceSuggestion i rs rc True gr sm s s') = s'
     \<and> returned (replaceSuggestion i rs rc True gr sm s s') = None
     \<and> filter is_save (trace (replaceSuggestion i rs rc True gr sm s s')) = []
     \<and> filter is_error (trace (replaceSuggestion i rs rc True gr sm s s'))
         = [OnError notFoundError]
     \<and> (\<forall>j d. ReplaceComplete j d \<notin> set (trace (replaceSuggestion i rs rc True gr sm s s')))"
proof -
  from assms(5) have "findIndex (\<lambda>sg. imdbID sg = i) (getCurrentSuggestions s') = None"
    by (auto simp: findIndex_None suggestionIds_def)
  from replaceSuggestion_not_applied [where gr = gr and sm = sm, OF assms(1-4) this]
  show ?thesis by (simp add: emit_def)
qed

theorem C5_target_gone_witness:
  "imdbID alien \<notin> set (suggestionIds (mk_state [alien] [heat] [dune, solaris]))
   \<and> find_stalker (Some ''Stalker'') (Some ''1979'') = Inr (Some stalker)
   \<and> store (replaceSuggestion (imdbID alien) True True True propose_stalker find_stalker
        (mk_state [alien] [heat] [dune, alien, solaris])
        (mk_state [alien] [heat] [dune, solaris]))
       = mk_state [alien] [heat] [dune, solaris]
   \<and> filter is_error (trace (replaceSuggestion (imdbID alien) True True True propose_stalker
        find_stalker (mk_state [alien] [heat] [dune, alien, solaris])
        (mk_state [alien] [heat] [dune, solaris]))) = [OnError notFoundError]"
proof -
  let ?s = "mk_state [alien] [heat] [dune, alien, solaris]"
  let ?s' = "mk_state [alien] [heat] [dune, solaris]"
  have reads: "getMovies ToWatch ?s = [alien]" "getMovies Watched ?s = [heat]"
    "getCurrentSuggestions ?s = [dune, alien, solaris]"
    by (simp_all add: getMovies_def getCurrentSuggestions_def mk_state_def)
  have titles: "lowerTitles (getMovies ToWatch ?s @ getMovies Watched ?s
                  @ getCurrentSuggestions ?s)
                = Some [''alien'', ''heat'', ''dune'', ''alien'', ''solaris'']"
    unfolding reads
    by (simp add: alien_def heat_def dune_def solaris_def mk_movie_def toLowerCase_def
        lower_char_def)
  have proposed: "propose_stalker
      (map toSample (take 10 (getMovies ToWatch ?s @ getMovies Watched ?s)))
      [''alien'', ''heat'', ''dune'', ''alien'', ''solaris'']
      = Inr (Suggestion (Some ''Stalker'') (Some ''1979'') (Some ''slow and strange''))"
    by (simp add: propose_stalker_def)
  have found: "find_stalker (Some ''Stalker'') (Some ''1979'') = Inr (Some stalker)"
    by (simp add: find_stalker_def)
  have fresh: "imdbID stalker \<notin> imdbID ` set (getMovies ToWatch ?s @ getMovies Watched ?s
                                     @ getCurrentSuggestions ?s)"
    unfolding reads
    by (simp add: alien_def heat_def dune_def solaris_def stalker_def mk_movie_def)
  have gone: "imdbID alien \<notin> set (suggestionIds ?s')"
    by (simp add: suggestionIds_def getCurrentSuggestions_def mk_state_def alien_def dune_def
        solaris_def mk_movie_def)
  from C5_target_gone [where gr = propose_stalker and sm = find_stalker,
      OF titles proposed found fresh gone, of True True]
  have "store (replaceSuggestion (imdbID alien) True True True propose_stalker find_stalker
          ?s ?s') = ?s'
        \<and> filter is_error (trace (replaceSuggestion (imdbID alien) True True True
             propose_stalker find_stalker ?s ?s')) = [OnError notFoundError]"
    by blast
  with gone found show ?thesis by simp
qed










lemma ids_splice1:
  "findIndex (\<lambda>m. f m = i) xs = Some k
     \<Longrightarrow> map f (splice1 k xs) = remove1 i (map f xs) \<and> f (xs ! k) = i"
proof (induction xs arbitrary: k)
  case Nil
  then show ?case by simp
next
  case (Cons x xs)
  show ?case
  proof (cases "f x = i")
    case True
    with Cons.prems show ?thesis by (simp add: splice1_def)
  next
    case False
    with Cons.prems obtain j where j: "findIndex (\<lambda>m. f m = i) xs = Some j" "k = Suc j"
      by (auto split: option.splits)
    from Cons.IH [OF j(1)] False j(2) show ?thesis by (simp add: splice1_def)
  qed
qed

lemma lists_reselect:
  "getMovies l (reselect i m s) = getMovies l s"
  by (simp add: reselect_def getMovies_def split: option.splits list_name.splits)

lemma lists_saveToLocalStorage:
  "getMovies l (saveToLocalStorage s) = getMovies l s"
  by (simp add: saveToLocalStorage_def getMovies_def split: list_name.splits)

text \<open>
  The two operations are moves: the identifier leaves the source list (its first
  occurrence) and is put at the head of the destination list.
\<close>

lemma markAsWatched_moves:
  assumes "i \<in> set (map imdbID (getMovies ToWatch s))"
  shows "map imdbID (getMovies ToWatch (markAsWatched i r s))
           = remove1 i (map imdbID (getMovies ToWatch s))
       \<and> map imdbID (getMovies Watched (markAsWatched i r s))
           = i # map imdbID (getMovies Watched s)"
proof -
  from assms have "findIndex (\<lambda>m. imdbID m = i) (toWatch (mediaData s)) \<noteq> None"
    by (auto simp: findIndex_None getMovies_def)
  then obtain k where k: "findIndex (\<lambda>m. imdbID m = i) (toWatch (mediaData s)) = Some k"
    by blast
  from ids_splice1 [OF k] show ?thesis
    by (cases r)
      (simp_all add: markAsWatched_def k Let_def lists_reselect lists_saveToLocalStorage,
        simp_all add: getMovies_def)
qed

lemma markAsWatched_absent:
  "i \<notin> set (map imdbID (getMovies ToWatch s)) \<Longrightarrow> markAsWatched i r s = s"
proof -
  assume "i \<notin> set (map imdbID (getMovies ToWatch s))"
  then have "findIndex (\<lambda>m. imdbID m = i) (toWatch (mediaData s)) = None"
    by (auto simp: findIndex_None getMovies_def)
  then show ?thesis by (simp add: markAsWatched_def)
qed

lemma markAsUnwatched_moves:
  assumes "i \<in> set (map imdbID (getMovies Watched s))"
  shows "map imdbID (getMovies Watched (markAsUnwatched i s))
           = remove1 i (map imdbID (getMovies Watched s))
       \<and> map imdbID (getMovies ToWatch (markAsUnwatched i s))
           = i # map imdbID (getMovies ToWatch s)"
proof -
  from assms have "findIndex (\<lambda>m. imdbID m = i) (watched (mediaData s)) \<noteq> None"
    by (auto simp: findIndex_None getMovies_def)
  then obtain k where k: "findIndex (\<lambda>m. imdbID m = i) (watched (mediaData s)) = Some k"
    by blast
  from ids_splice1 [OF k] show ?thesis
    by (simp add: markAsUnwatched_def k Let_def lists_reselect lists_saveToLocalStorage)
      (simp add: getMovies_def)
qed

lemma markAsUnwatched_absent:
  "i \<notin> set (map imdbID (getMovies Watched s)) \<Longrightarrow> markAsUnwatched i s = s"
proof -
  assume "i \<notin> set (map imdbID (getMovies Watched s))"
  then have "findIndex (\<lambda>m. imdbID m = i) (watched (mediaData s)) = None"
    by (auto simp: findIndex_None getMovies_def)
  then show ?thesis by (simp add: markAsUnwatched_def)
qed

lemma move_keeps:
  assumes "set src \<inter> set dst = {}" and "distinct src" and "distinct dst" and "i \<in> set src"
  shows "set (remove1 i src) \<inter> set (i # dst) = {} \<and> distinct (remove1 i src)
         \<and> distinct (i # dst)"
  using assms by auto

lemma apply_op_keeps:
  assumes "exclusive s" and "noRepeats s"
  shows "exclusive (apply_op operation s) \<and> noRepeats (apply_op operation s)"
proof (cases operation)
  case (MarkAsWatched i r)
  show ?thesis
  proof (cases "i \<in> set (map imdbID (getMovies ToWatch s))")
    case True
    from assms True
    have "set (remove1 i (map imdbID (getMovies ToWatch s)))
            \<inter> set (i # map imdbID (getMovies Watched s)) = {}
          \<and> distinct (remove1 i (map imdbID (getMovies ToWatch s)))
          \<and> distinct (i # map imdbID (getMovies Watched s))"
      unfolding exclusive_def noRepeats_def by (intro move_keeps) simp_all
    with markAsWatched_moves [OF True, of r] show ?thesis
      unfolding MarkAsWatched exclusive_def noRepeats_def by simp
  next
    case False
    with assms show ?thesis by (simp add: MarkAsWatched markAsWatched_absent)
  qed
next
  case (MarkAsUnwatched i)
  show ?thesis
  proof (cases "i \<in> set (map imdbID (getMovies Watched s))")
    case True
    from assms True
    have "set (remove1 i (map imdbID (getMovies Watched s)))
            \<inter> set (i # map imdbID (getMovies ToWatch s)) = {}
          \<and> distinct (remove1 i (map imdbID (getMovies Watched s)))
          \<and> distinct (i # map imdbID (getMovies ToWatch s))"
      unfolding exclusive_def noRepeats_def by (intro move_keeps) auto
    with markAsUnwatched_moves [OF True] show ?thesis
      unfolding MarkAsUnwatched exclusive_def noRepeats_def by (simp add: Int_commute)
  next
    case False
    with assms show ?thesis by (simp add: MarkAsUnwatched markAsUnwatched_absent)
  qed
qed

theorem C8_counterexample:
  "exclusive (mk_state [alien, alien] [] [])
   \<and> \<not> exclusive (run_ops [MarkAsWatched (imdbID alien) None] (mk_state [alien, alien] [] []))"
  by (simp add: exclusive_def getMovies_def mk_state_def markAsWatched_def splice1_def
      saveToLocalStorage_def reselect_def Let_def)

text \<open>
  Claim C8, as amended. Starting from a state in which no identifier is in both
  \<open>toWatch\<close> and \<open>watched\<close> and no identifier occurs twice within one list, every sequence
  of \<open>markAsWatched\<close> and \<open>markAsUnwatched\<close> operations leads to a state with the same two
  properties: no identifier is ever in both lists.
\<close>

theorem C8_lists_exclusive:
  assumes "exclusive s" and "noRepeats s"
  shows "exclusive (run_ops ops s) \<and> noRepeats (run_ops ops s)"
  using assms
proof (induction ops arbitrary: s)
  case Nil
  then show ?case by simp
next
  case (Cons operation ops)
  from apply_op_keeps [OF Cons.prems, of operation]
  have "exclusive (apply_op operation s)" and "noRepeats (apply_op operation s)"
    by simp_all
  from Cons.IH [OF this] show ?case by simp
qed

theorem C8_lists_exclusive_witness:
  "exclusive (mk_state [alien, dune] [heat] [])
   \<and> noRepeats (mk_state [alien, dune] [heat] [])
   \<and> getMovies ToWatch
        (run_ops [MarkAsWatched (imdbID alien) (Some 8), MarkAsUnwatched (imdbID heat),
                  MarkAsWatched (imdbID dune) None, MarkAsUnwatched (imdbID alien)]
           (mk_state [alien, dune] [heat] [])) = [alien, heat]
   \<and> getMovies Watched
        (run_ops [MarkAsWatched (imdbID alien) (Some 8), MarkAsUnwatched (imdbID heat),
                  MarkAsWatched (imdbID dune) None, MarkAsUnwatched (imdbID alien)]
           (mk_state [alien, dune] [heat] [])) = [dune]
   \<and> exclusive
        (run_ops [MarkAsWatched (imdbID alien) (Some 8), MarkAsUnwatched (imdbID heat),
                  MarkAsWatched (imdbID dune) None, MarkAsUnwatched (imdbID alien)]
           (mk_state [alien, dune] [heat] []))
   \<and> noRepeats
        (run_ops [MarkAsWatched (imdbID alien) (Some 8), MarkAsUnwatched (imdbID heat),
                  MarkAsWatched (imdbID dune) None, MarkAsUnwatched (imdbID alien)]
           (mk_state [alien, dune] [heat] []))"
proof -
  let ?s = "mk_state [alien, dune] [heat] []"
  let ?ops = "[MarkAsWatched (imdbID alien) (Some 8), MarkAsUnwatched (imdbID heat),
               MarkAsWatched (imdbID dune) None, MarkAsUnwatched (imdbID alien)]"
  have start: "exclusive ?s" "noRepeats ?s"
    by (simp_all add: exclusive_def noRepeats_def getMovies_def mk_state_def alien_def dune_def
        heat_def mk_movie_def)
  have final: "getMovies ToWatch (run_ops ?ops ?s) = [alien, heat]"
    "getMovies Watched (run_ops ?ops ?s) = [dune]"
    by (simp_all add: getMovies_def mk_state_def markAsWatched_def markAsUnwatched_def
        splice1_def saveToLocalStorage_def reselect_def Let_def alien_def dune_def heat_def
        mk_movie_def)
  from C8_lists_exclusive [OF start, of ?ops] start final show ?thesis by simp
qed




text \<open>A lookup that succeeds, for comparison: the exact title and year are found.\<close>

lemma searchMovieByTitle_found:
  "searchMovieByTitle fetch_catalogue (Some ''Blade Runner'') (Some ''1982'')
     = Inr (Some bladeRunner)"
  by (simp add: searchMovieByTitle_def searchMovieByTitle_try_def fetchJson_def
      fetch_catalogue_def API_URL_def API_KEY_def toString_def encodeURIComponent_def
      unreserved_def hexDigit_def Let_def)



















end
